theory Spec2Isabelle
  imports Main "HOL-Library.Word"
begin

section \<open>Types of the ONNX dialect used by the sequence operations\<close>

text \<open>
  The file \<^verbatim>\<open>src/Dialect/ONNX/ONNXOps/Sequence/Sequence.cpp\<close> holds one helper,
  \<^verbatim>\<open>sequenceAddType\<close>, and the shape inference (and two verifiers) of the six sequence
  operations. Sizes and lengths are \<^verbatim>\<open>int64_t\<close> there, with \<open>-1\<close> standing for a
  dynamic dimension and for an unknown sequence length; they are 64-bit words here.
\<close>

type_synonym int64_t = "64 word"

text \<open>Scalar element types, as the builder calls of the source name them.\<close>

datatype Type = F16Type | F32Type | F64Type | IntegerType nat

text \<open>
  The tensor types a sequence can hold. \<^verbatim>\<open>getShape\<close> is only called by the source once
  \<^verbatim>\<open>hasRank\<close> has answered true; on an unranked tensor it is given the empty list here.
\<close>

datatype ShapedType =
    RankedTensorType "int64_t list" Type
  | UnrankedTensorType Type

fun getElementType :: "ShapedType \<Rightarrow> Type" where
  "getElementType (RankedTensorType dims elementType) = elementType"
| "getElementType (UnrankedTensorType elementType) = elementType"

fun hasRank :: "ShapedType \<Rightarrow> bool" where
  "hasRank (RankedTensorType dims elementType) = True"
| "hasRank (UnrankedTensorType elementType) = False"

fun getShape :: "ShapedType \<Rightarrow> int64_t list" where
  "getShape (RankedTensorType dims elementType) = dims"
| "getShape (UnrankedTensorType elementType) = []"

definition getRank :: "ShapedType \<Rightarrow> nat" where
  "getRank t = length (getShape t)"

definition isa_UnrankedTensorType :: "ShapedType \<Rightarrow> bool" where
  "isa_UnrankedTensorType t = (\<not> hasRank t)"


text \<open>
  \<^verbatim>\<open>SeqType::get(elementType, length)\<close> with its two getters. The class is declared
  outside this file; the source uses exactly these three members.
\<close>

datatype SeqType = SeqType (SeqType_getElementType: ShapedType) (getLength: int64_t)

text \<open>
  What an operation's hooks can change: the type of its result and the diagnostics it has
  emitted. The operand types are read-only arguments of each hook.
\<close>

datatype LogicalResult = success | failure

record 'ty Operation =
  resultType :: 'ty
  diagnostics :: "string list"

definition setType :: "'ty \<Rightarrow> 'ty Operation \<Rightarrow> 'ty Operation" where
  "setType t op = op\<lparr>resultType := t\<rparr>"

definition emitError :: "string \<Rightarrow> 'ty Operation \<Rightarrow> LogicalResult \<times> 'ty Operation" where
  "emitError msg op = (failure, op\<lparr>diagnostics := diagnostics op @ [msg]\<rparr>)"

text \<open>The ways a hook can stop without returning: a failed \<^verbatim>\<open>assert\<close>, or an
  operand read past the end of the operand list.\<close>

datatype error = AssertionFailed string | OperandOutOfRange

section \<open>The helper \<^verbatim>\<open>sequenceAddType\<close>\<close>

definition sequenceAddType :: "ShapedType \<Rightarrow> ShapedType \<Rightarrow> error + ShapedType" where
  "sequenceAddType accumulatedType additionalType =
     (let elementType = getElementType accumulatedType in
      if elementType \<noteq> getElementType additionalType
      then Inl (AssertionFailed ''types to merge must have the same data type'')
      else if \<not> hasRank accumulatedType then Inr accumulatedType
      else if \<not> hasRank additionalType then Inr additionalType
      else
        let rank = getRank accumulatedType in
        if rank \<noteq> getRank additionalType then Inr (UnrankedTensorType elementType)
        else
          let acc = getShape accumulatedType;
              add = getShape additionalType;
              dims = map (\<lambda>i. if acc ! i \<noteq> add ! i then - 1 else add ! i) [0..<rank]
          in Inr (RankedTensorType dims elementType))"

section \<open>SequenceAtOp\<close>

definition ONNXSequenceAtOp_inferShapes ::
  "SeqType \<Rightarrow> ShapedType Operation \<Rightarrow> LogicalResult \<times> ShapedType Operation" where
  "ONNXSequenceAtOp_inferShapes input_sequence op =
     (let outputType = resultType op;
          inputElementType = SeqType_getElementType input_sequence
      in if \<not> isa_UnrankedTensorType inputElementType \<and> isa_UnrankedTensorType outputType
         then (success, setType inputElementType op)
         else (success, op))"

section \<open>SequenceConstructOp\<close>

text \<open>The loop over \<^verbatim>\<open>types[1]\<close>, \<^verbatim>\<open>types[2]\<close>, ...: it stops at the first failed
  assertion of the helper.\<close>

fun sequenceAddTypes :: "ShapedType \<Rightarrow> ShapedType list \<Rightarrow> error + ShapedType" where
  "sequenceAddTypes seqTensorType [] = Inr seqTensorType"
| "sequenceAddTypes seqTensorType (t # ts) =
     (case sequenceAddType seqTensorType t of
        Inl e \<Rightarrow> Inl e
      | Inr seqTensorType' \<Rightarrow> sequenceAddTypes seqTensorType' ts)"

definition ONNXSequenceConstructOp_inferShapes ::
  "ShapedType list \<Rightarrow> SeqType Operation \<Rightarrow> error + (LogicalResult \<times> SeqType Operation)" where
  "ONNXSequenceConstructOp_inferShapes types op =
     (case types of
        [] \<Rightarrow> Inl OperandOutOfRange
      | t0 # rest \<Rightarrow>
          (case sequenceAddTypes t0 rest of
             Inl e \<Rightarrow> Inl e
           | Inr seqTensorType \<Rightarrow>
               Inr (success, setType (SeqType seqTensorType (of_nat (length types))) op)))"

section \<open>SequenceEmptyOp\<close>

text \<open>
  \<^verbatim>\<open>convertONNXTypeToMLIRType\<close> is defined outside this file: the verifier takes it as
  its first argument. The optional attribute \<^verbatim>\<open>dtype\<close> is an optional 64-bit integer.
\<close>

definition ONNXSequenceEmptyOp_verify ::
  "(int64_t \<Rightarrow> Type) \<Rightarrow> int64_t option \<Rightarrow> SeqType Operation
     \<Rightarrow> LogicalResult \<times> SeqType Operation" where
  "ONNXSequenceEmptyOp_verify convertONNXTypeToMLIRType dtypeAttr op =
     (let elementType =
            (case dtypeAttr of
               Some v \<Rightarrow> convertONNXTypeToMLIRType v
             | None \<Rightarrow> F32Type);
          outputSeqElementType = SeqType_getElementType (resultType op)
      in if getElementType outputSeqElementType \<noteq> elementType
         then emitError ''SequenceEmpty dtype() does not match the output type'' op
         else (success, op))"

definition ONNXSequenceEmptyOp_inferShapes ::
  "SeqType Operation \<Rightarrow> LogicalResult \<times> SeqType Operation" where
  "ONNXSequenceEmptyOp_inferShapes op =
     (let originTy = resultType op;
          elementTy = SeqType_getElementType originTy;
          returnTy = SeqType elementTy 0
      in (success, setType returnTy op))"

section \<open>SequenceEraseOp\<close>

definition ONNXSequenceEraseOp_inferShapes ::
  "SeqType \<Rightarrow> SeqType Operation \<Rightarrow> LogicalResult \<times> SeqType Operation" where
  "ONNXSequenceEraseOp_inferShapes input_sequence op =
     (let inputTy = input_sequence;
          len = getLength inputTy
      in if len = 0 then emitError ''SequenceErase from an empty seq'' op
         else (success,
               setType (SeqType (SeqType_getElementType inputTy)
                          (if len = - 1 then - 1 else len - 1)) op))"

section \<open>SequenceInsertOp\<close>

definition ONNXSequenceInsertOp_verify ::
  "SeqType \<Rightarrow> ShapedType \<Rightarrow> SeqType Operation \<Rightarrow> LogicalResult \<times> SeqType Operation" where
  "ONNXSequenceInsertOp_verify input_sequence tensor op =
     (let seqElementType = SeqType_getElementType input_sequence;
          elementType1 = getElementType seqElementType;
          insertType = tensor;
          elementType2 = getElementType insertType
      in if elementType1 \<noteq> elementType2
         then emitError
                ''Element types of the tensor in seqence and input have to be the same'' op
         else (success, op))"

definition ONNXSequenceInsertOp_inferShapes ::
  "SeqType \<Rightarrow> ShapedType \<Rightarrow> SeqType Operation
     \<Rightarrow> error + (LogicalResult \<times> SeqType Operation)" where
  "ONNXSequenceInsertOp_inferShapes input_sequence tensor op =
     (let seqType = input_sequence;
          tensorType = tensor;
          len = getLength seqType
      in if len = 0 then Inr (success, setType (SeqType tensorType 1) op)
         else
           let newLength = (if len = - 1 then - 1 else len + 1) in
           (case sequenceAddType (SeqType_getElementType seqType) tensorType of
              Inl e \<Rightarrow> Inl e
            | Inr seqTensorType \<Rightarrow> Inr (success, setType (SeqType seqTensorType newLength) op)))"

section \<open>SequenceLengthOp\<close>


section \<open>The specification's data model and its merge\<close>

text \<open>
  The specification describes a tensor by its scalar type and a shape that is unranked or
  a list of dimensions, each static or dynamic, and a sequence by its element descriptor
  and a length that is known or unknown.
\<close>

datatype DimSize = Static nat | Dynamic

datatype Shape = Unranked | Ranked "DimSize list"

record TensorShapeDescriptor =
  elementDataType :: Type
  shape :: Shape

datatype Length = Unknown | Known nat

text \<open>
  The reference definition of \<open>merge\<close>, following the three steps of the specification:
  an unranked input gives an unranked result; so do two ranked inputs of different rank;
  otherwise each dimension is \<open>Static v\<close> where both sides are \<open>Static v\<close> and
  \<open>Dynamic\<close> elsewhere. The scalar type is the common one.
\<close>

fun mergeDim :: "DimSize \<Rightarrow> DimSize \<Rightarrow> DimSize" where
  "mergeDim (Static v) (Static w) = (if v = w then Static v else Dynamic)"
| "mergeDim a b = Dynamic"

fun mergeShape :: "Shape \<Rightarrow> Shape \<Rightarrow> Shape" where
  "mergeShape Unranked b = Unranked"
| "mergeShape a Unranked = Unranked"
| "mergeShape (Ranked da) (Ranked db) =
     (if length da \<noteq> length db then Unranked else Ranked (map2 mergeDim da db))"

definition merge ::
  "TensorShapeDescriptor \<Rightarrow> TensorShapeDescriptor \<Rightarrow> TensorShapeDescriptor" where
  "merge a b = \<lparr>elementDataType = elementDataType a, shape = mergeShape (shape a) (shape b)\<rparr>"

text \<open>
  How the types of the code are read as the specification's values. The source compares
  a size or a length with \<open>-1\<close> before anything else: that word is the dynamic dimension
  and the unknown length. Every other word is read as the natural number it holds, which
  for the non-negative \<^verbatim>\<open>int64_t\<close> values (below \<open>2 ^ 63\<close>) is the signed value.
\<close>

definition dimOf :: "int64_t \<Rightarrow> DimSize" where
  "dimOf d = (if d = - 1 then Dynamic else Static (unat d))"

fun shapeOf :: "ShapedType \<Rightarrow> Shape" where
  "shapeOf (RankedTensorType dims elementType) = Ranked (map dimOf dims)"
| "shapeOf (UnrankedTensorType elementType) = Unranked"

definition descriptorOf :: "ShapedType \<Rightarrow> TensorShapeDescriptor" where
  "descriptorOf t = \<lparr>elementDataType = getElementType t, shape = shapeOf t\<rparr>"

definition lengthOf :: "int64_t \<Rightarrow> Length" where
  "lengthOf n = (if n = - 1 then Unknown else Known (unat n))"

section \<open>Facts about the reading of types\<close>

lemma dimOf_inj: "dimOf d = dimOf e \<longleftrightarrow> d = e"
  by (auto simp: dimOf_def word_unat_eq_iff split: if_splits)

lemma map_dimOf_inj: "map dimOf ds = map dimOf es \<longleftrightarrow> ds = es"
  by (simp add: inj_on_def dimOf_inj)

lemma descriptorOf_inj: "descriptorOf s = descriptorOf t \<longleftrightarrow> s = t"
  by (cases s; cases t) (auto simp: descriptorOf_def map_dimOf_inj)

section \<open>The helper against the reference merge\<close>

lemma mergeDim_dimOf:
  "mergeDim (dimOf x) (dimOf y) = dimOf (if x \<noteq> y then - 1 else y)"
  by (auto simp: dimOf_def word_unat_eq_iff)

lemma dims_loop_refines:
  "length acc = n \<Longrightarrow> length add = n \<Longrightarrow>
   map dimOf (map (\<lambda>i. if acc ! i \<noteq> add ! i then - 1 else add ! i) [0..<n])
     = map2 mergeDim (map dimOf acc) (map dimOf add)"
  by (rule nth_equalityI) (simp_all add: mergeDim_dimOf)

lemma sequenceAddType_refines:
  assumes "getElementType a = getElementType b"
  shows "\<exists>t. sequenceAddType a b = Inr t \<and> descriptorOf t = merge (descriptorOf a) (descriptorOf b)"
proof (cases a)
  case (RankedTensorType da ea)
  show ?thesis
  proof (cases b)
    case (RankedTensorType db eb)
    show ?thesis
    proof (cases "length da = length db")
      case True
      then show ?thesis
        using assms \<open>a = _\<close> \<open>b = _\<close>
        by (simp add: sequenceAddType_def getRank_def descriptorOf_def merge_def
            dims_loop_refines del: map_map)
    next
      case False
      then show ?thesis
        using assms \<open>a = _\<close> \<open>b = _\<close>
        by (simp add: sequenceAddType_def getRank_def descriptorOf_def merge_def)
    qed
  next
    case (UnrankedTensorType eb)
    then show ?thesis
      using assms \<open>a = _\<close>
      by (simp add: sequenceAddType_def descriptorOf_def merge_def)
  qed
next
  case (UnrankedTensorType ea)
  then show ?thesis
    using assms by (cases b) (simp_all add: sequenceAddType_def descriptorOf_def merge_def)
qed

lemma sequenceAddType_comm:
  "getElementType a = getElementType b \<Longrightarrow> sequenceAddType a b = sequenceAddType b a"
  by (cases a; cases b) (auto simp: sequenceAddType_def getRank_def Let_def)

lemma sequenceAddType_idem: "sequenceAddType x x = Inr x"
  by (cases x) (auto simp: sequenceAddType_def getRank_def Let_def intro: nth_equalityI)

lemma sequenceAddType_elementType:
  "sequenceAddType a b = Inr t \<Longrightarrow> getElementType t = getElementType a"
  by (cases a; cases b) (auto simp: sequenceAddType_def Let_def split: if_splits)

section \<open>Length arithmetic\<close>

lemma lengthOf_Known_0: "lengthOf n = Known 0 \<longleftrightarrow> n = 0"
  by (auto simp: lengthOf_def unat_eq_zero)

lemma lengthOf_Unknown: "lengthOf n = Unknown \<longleftrightarrow> n = - 1"
  by (simp add: lengthOf_def)

lemma lengthOf_Known: "lengthOf n = Known k \<longleftrightarrow> n \<noteq> - 1 \<and> unat n = k"
  by (auto simp: lengthOf_def)

lemma unat_minus_1_int64: "unat (- 1 :: int64_t) = 18446744073709551615"
  by (simp add: unsigned_minus_1_eq_mask mask_eq_exp_minus_1)

lemma lengthOf_succ:
  assumes "lengthOf n = Known k" "Suc k < 2 ^ 63"
  shows "n + 1 \<noteq> - 1 \<and> lengthOf (n + 1) = Known (Suc k)"
proof -
  from assms have n: "n \<noteq> - 1" "unat n = k" by (simp_all add: lengthOf_Known)
  have "unat n + unat (1 :: int64_t) < 2 ^ LENGTH(64)"
    using n assms(2) by simp
  then have "unat (n + 1) = unat n + unat (1 :: int64_t)"
    using unat_add_lem [of n 1] by blast
  then have u: "unat (n + 1) = Suc k" using n by simp
  have "n + 1 \<noteq> - 1"
  proof
    assume "n + 1 = - 1"
    then have "unat (n + 1) = unat (- 1 :: int64_t)" by (rule arg_cong)
    with u assms(2) show False by (simp only: unat_minus_1_int64) simp
  qed
  with u show ?thesis by (simp add: lengthOf_Known)
qed

lemma lengthOf_pred:
  assumes "lengthOf n = Known k" "0 < k"
  shows "n - 1 \<noteq> - 1 \<and> lengthOf (n - 1) = Known (k - 1)"
proof -
  from assms have n: "n \<noteq> - 1" "unat n = k" "n \<noteq> 0"
    by (auto simp: lengthOf_Known)
  then have "unat (n - 1) = k - 1"
    by (simp add: unat_minus_one)
  moreover have "n - 1 \<noteq> - 1" using n by simp
  ultimately show ?thesis by (simp add: lengthOf_Known)
qed

lemma lengthOf_of_nat: "n < 2 ^ 63 \<Longrightarrow> lengthOf (of_nat n) = Known n"
proof -
  assume a: "n < 2 ^ 63"
  then have "n < 2 ^ LENGTH(64)" by simp
  then have u: "unat (of_nat n :: int64_t) = n" by (simp add: unat_of_nat)
  have "(of_nat n :: int64_t) \<noteq> - 1"
  proof
    assume "(of_nat n :: int64_t) = - 1"
    then have "unat (of_nat n :: int64_t) = unat (- 1 :: int64_t)" by (rule arg_cong)
    with u a show False by (simp only: unat_minus_1_int64) simp
  qed
  with u show ?thesis by (simp add: lengthOf_Known)
qed

section \<open>The list loop against the reference merge\<close>

lemma sequenceAddTypes_refines:
  "\<forall>t\<in>set ts. getElementType t = getElementType t0 \<Longrightarrow>
   \<exists>t. sequenceAddTypes t0 ts = Inr t
     \<and> descriptorOf t = foldl merge (descriptorOf t0) (map descriptorOf ts)"
proof (induction ts arbitrary: t0)
  case Nil
  then show ?case by simp
next
  case (Cons x xs)
  then have "getElementType t0 = getElementType x" by simp
  then obtain t1 where t1: "sequenceAddType t0 x = Inr t1"
      "descriptorOf t1 = merge (descriptorOf t0) (descriptorOf x)"
    using sequenceAddType_refines by blast
  then have "getElementType t1 = getElementType t0"
    by (simp add: sequenceAddType_elementType)
  with Cons.prems have "\<forall>t\<in>set xs. getElementType t = getElementType t1" by simp
  from Cons.IH [OF this] t1 show ?case by simp
qed

section \<open>The claims\<close>

text \<open>
  Claim C1 (Construct-Empty), as amended. The claim says that the committed element
  descriptor is always the unranked tensor of the resolved scalar type. The hook instead
  keeps the element type that the result already declares and only sets the length to
  zero: for every operation that passes the verifier, the committed type is the declared
  element type with length \<open>Known 0\<close>; the scalar type of that element type is the resolved
  one (the attribute's, or 32-bit float without attribute), and the committed element type
  is the unranked tensor of the resolved scalar type exactly in the case where the declared
  one was unranked.
\<close>

theorem SequenceEmpty_keeps_declared_element_type:
  assumes "fst (ONNXSequenceEmptyOp_verify convertONNXTypeToMLIRType dtypeAttr op) = success"
  shows "ONNXSequenceEmptyOp_inferShapes op
           = (success, op\<lparr>resultType := SeqType (SeqType_getElementType (resultType op)) 0\<rparr>)
    \<and> lengthOf 0 = Known 0
    \<and> getElementType (SeqType_getElementType (resultType op))
        = (case dtypeAttr of Some v \<Rightarrow> convertONNXTypeToMLIRType v | None \<Rightarrow> F32Type)
    \<and> (shapeOf (SeqType_getElementType (resultType op)) = Unranked \<longrightarrow>
         SeqType_getElementType (resultType op)
           = UnrankedTensorType
               (case dtypeAttr of Some v \<Rightarrow> convertONNXTypeToMLIRType v | None \<Rightarrow> F32Type))"
proof -
  from assms have e: "getElementType (SeqType_getElementType (resultType op))
        = (case dtypeAttr of Some v \<Rightarrow> convertONNXTypeToMLIRType v | None \<Rightarrow> F32Type)"
    by (simp add: ONNXSequenceEmptyOp_verify_def emitError_def Let_def split: if_splits)
  then have "shapeOf (SeqType_getElementType (resultType op)) = Unranked \<longrightarrow>
         SeqType_getElementType (resultType op)
           = UnrankedTensorType
               (case dtypeAttr of Some v \<Rightarrow> convertONNXTypeToMLIRType v | None \<Rightarrow> F32Type)"
    by (cases "SeqType_getElementType (resultType op)") simp_all
  with e show ?thesis
    by (simp add: ONNXSequenceEmptyOp_inferShapes_def setType_def lengthOf_def)
qed

text \<open>Scenario 1 of the specification: requested type 32-bit integer, declared result
  an unranked sequence of that type.\<close>

theorem SequenceEmpty_keeps_declared_element_type_witness:
  "fst (ONNXSequenceEmptyOp_verify (\<lambda>v. IntegerType 32) (Some 6)
          \<lparr>resultType = SeqType (UnrankedTensorType (IntegerType 32)) (- 1), diagnostics = []\<rparr>)
     = success
   \<and> ONNXSequenceEmptyOp_inferShapes
          \<lparr>resultType = SeqType (UnrankedTensorType (IntegerType 32)) (- 1), diagnostics = []\<rparr>
     = (success,
        \<lparr>resultType = SeqType (UnrankedTensorType (IntegerType 32)) 0, diagnostics = []\<rparr>)
   \<and> lengthOf 0 = Known 0"
  using SequenceEmpty_keeps_declared_element_type
    [of "\<lambda>v. IntegerType 32" "Some 6"
        "\<lparr>resultType = SeqType (UnrankedTensorType (IntegerType 32)) (- 1), diagnostics = []\<rparr>"]
  by (simp add: ONNXSequenceEmptyOp_verify_def)

text \<open>
  The claim as stated fails: a result declared as a sequence of \<open>2 x 3\<close> float tensors
  passes the verifier (no attribute, so the resolved type is 32-bit float), and the hook
  commits the ranked element type, not the unranked one.
\<close>

theorem SequenceEmpty_ranked_counterexample:
  "fst (ONNXSequenceEmptyOp_verify (\<lambda>v. F32Type) None
          \<lparr>resultType = SeqType (RankedTensorType [2, 3] F32Type) (- 1), diagnostics = []\<rparr>)
     = success
   \<and> resultType (snd (ONNXSequenceEmptyOp_inferShapes
          \<lparr>resultType = SeqType (RankedTensorType [2, 3] F32Type) (- 1), diagnostics = []\<rparr>))
     = SeqType (RankedTensorType [2, 3] F32Type) 0
   \<and> resultType (snd (ONNXSequenceEmptyOp_inferShapes
          \<lparr>resultType = SeqType (RankedTensorType [2, 3] F32Type) (- 1), diagnostics = []\<rparr>))
     \<noteq> SeqType (UnrankedTensorType F32Type) 0"
  by (simp add: ONNXSequenceEmptyOp_verify_def ONNXSequenceEmptyOp_inferShapes_def setType_def)



text \<open>
  Claim C3 (Insert). Into a sequence of length \<open>Known 0\<close> the hook commits the inserted
  tensor's type itself, with length \<open>Known 1\<close>, and the helper is not called. Once the
  verifier has passed (equal scalar types, the helper's precondition): into a sequence of
  length \<open>Known k\<close> with \<open>k > 0\<close> it commits the merge of the sequence's element descriptor
  with the inserted tensor's, with length \<open>Known (k + 1)\<close>; into a sequence of unknown
  length it commits the same merge with unknown length. The length is an \<^verbatim>\<open>int64_t\<close>:
  \<open>k + 1\<close> has to be one too.
\<close>

theorem SequenceInsert_inferShapes_cases:
  "(lengthOf (getLength s) = Known 0 \<longrightarrow>
      ONNXSequenceInsertOp_inferShapes s tensor op
        = Inr (success, op\<lparr>resultType := SeqType tensor 1\<rparr>)
      \<and> lengthOf 1 = Known 1)
   \<and> (fst (ONNXSequenceInsertOp_verify s tensor op) = success \<longrightarrow>
        (\<forall>k. lengthOf (getLength s) = Known k \<and> 0 < k \<and> Suc k < 2 ^ 63 \<longrightarrow>
           (\<exists>t. ONNXSequenceInsertOp_inferShapes s tensor op
                    = Inr (success, op\<lparr>resultType := SeqType t (getLength s + 1)\<rparr>)
                  \<and> descriptorOf t
                      = merge (descriptorOf (SeqType_getElementType s)) (descriptorOf tensor)
                  \<and> lengthOf (getLength s + 1) = Known (Suc k)))
        \<and> (lengthOf (getLength s) = Unknown \<longrightarrow>
           (\<exists>t. ONNXSequenceInsertOp_inferShapes s tensor op
                    = Inr (success, op\<lparr>resultType := SeqType t (- 1)\<rparr>)
                  \<and> descriptorOf t
                      = merge (descriptorOf (SeqType_getElementType s)) (descriptorOf tensor)
                  \<and> lengthOf (- 1) = Unknown)))"
proof (intro conjI impI allI)
  assume "lengthOf (getLength s) = Known 0"
  then show "ONNXSequenceInsertOp_inferShapes s tensor op
      = Inr (success, op\<lparr>resultType := SeqType tensor 1\<rparr>)"
    by (simp add: lengthOf_Known_0 ONNXSequenceInsertOp_inferShapes_def setType_def)
next
  show "lengthOf 1 = Known 1" by (simp add: lengthOf_def)
next
  fix k
  assume v: "fst (ONNXSequenceInsertOp_verify s tensor op) = success"
    and k: "lengthOf (getLength s) = Known k \<and> 0 < k \<and> Suc k < 2 ^ 63"
  from v have "getElementType (SeqType_getElementType s) = getElementType tensor"
    by (simp add: ONNXSequenceInsertOp_verify_def emitError_def Let_def split: if_splits)
  then obtain t where t: "sequenceAddType (SeqType_getElementType s) tensor = Inr t"
      "descriptorOf t = merge (descriptorOf (SeqType_getElementType s)) (descriptorOf tensor)"
    using sequenceAddType_refines by blast
  from k have n: "getLength s \<noteq> 0" "getLength s \<noteq> - 1"
    by (auto simp: lengthOf_Known)
  from k have "lengthOf (getLength s + 1) = Known (Suc k)"
    by (simp add: lengthOf_succ)
  with t n show "\<exists>t. ONNXSequenceInsertOp_inferShapes s tensor op
                    = Inr (success, op\<lparr>resultType := SeqType t (getLength s + 1)\<rparr>)
                  \<and> descriptorOf t
                      = merge (descriptorOf (SeqType_getElementType s)) (descriptorOf tensor)
                  \<and> lengthOf (getLength s + 1) = Known (Suc k)"
    by (intro exI [of _ t]) (simp add: ONNXSequenceInsertOp_inferShapes_def setType_def)
next
  assume v: "fst (ONNXSequenceInsertOp_verify s tensor op) = success"
    and u: "lengthOf (getLength s) = Unknown"
  from v have "getElementType (SeqType_getElementType s) = getElementType tensor"
    by (simp add: ONNXSequenceInsertOp_verify_def emitError_def Let_def split: if_splits)
  then obtain t where t: "sequenceAddType (SeqType_getElementType s) tensor = Inr t"
      "descriptorOf t = merge (descriptorOf (SeqType_getElementType s)) (descriptorOf tensor)"
    using sequenceAddType_refines by blast
  from u have "getLength s = - 1" by (simp add: lengthOf_Unknown)
  with t show "\<exists>t. ONNXSequenceInsertOp_inferShapes s tensor op
                    = Inr (success, op\<lparr>resultType := SeqType t (- 1)\<rparr>)
                  \<and> descriptorOf t
                      = merge (descriptorOf (SeqType_getElementType s)) (descriptorOf tensor)
                  \<and> lengthOf (- 1) = Unknown"
    by (intro exI [of _ t])
       (simp add: ONNXSequenceInsertOp_inferShapes_def setType_def lengthOf_Unknown)
qed

text \<open>Scenarios 3 and 4 of the specification.\<close>

theorem SequenceInsert_inferShapes_cases_witness:
  "ONNXSequenceInsertOp_inferShapes (SeqType (UnrankedTensorType F32Type) 0)
      (RankedTensorType [5] F32Type)
      \<lparr>resultType = SeqType (UnrankedTensorType F32Type) (- 1), diagnostics = []\<rparr>
     = Inr (success,
            \<lparr>resultType = SeqType (RankedTensorType [5] F32Type) 1, diagnostics = []\<rparr>)
   \<and> fst (ONNXSequenceInsertOp_verify (SeqType (RankedTensorType [2, - 1] F32Type) 2)
      (RankedTensorType [3, 3] F32Type)
      \<lparr>resultType = SeqType (UnrankedTensorType F32Type) (- 1), diagnostics = []\<rparr>) = success
   \<and> ONNXSequenceInsertOp_inferShapes (SeqType (RankedTensorType [2, - 1] F32Type) 2)
      (RankedTensorType [3, 3] F32Type)
      \<lparr>resultType = SeqType (UnrankedTensorType F32Type) (- 1), diagnostics = []\<rparr>
     = Inr (success,
            \<lparr>resultType = SeqType (RankedTensorType [- 1, - 1] F32Type) 3, diagnostics = []\<rparr>)
   \<and> lengthOf 3 = Known 3"
proof -
  have v: "fst (ONNXSequenceInsertOp_verify (SeqType (RankedTensorType [2, - 1] F32Type) 2)
      (RankedTensorType [3, 3] F32Type)
      \<lparr>resultType = SeqType (UnrankedTensorType F32Type) (- 1), diagnostics = []\<rparr>) = success"
    by (simp add: ONNXSequenceInsertOp_verify_def)
  have d: "merge (descriptorOf (RankedTensorType [2, - 1] F32Type))
             (descriptorOf (RankedTensorType [3, 3] F32Type))
           = descriptorOf (RankedTensorType [- 1, - 1] F32Type)"
    by (simp add: descriptorOf_def merge_def dimOf_def)
  show ?thesis
    using v d
      SequenceInsert_inferShapes_cases
        [of "SeqType (UnrankedTensorType F32Type) 0" "RankedTensorType [5] F32Type"
          "\<lparr>resultType = SeqType (UnrankedTensorType F32Type) (- 1), diagnostics = []\<rparr>"]
      SequenceInsert_inferShapes_cases
        [of "SeqType (RankedTensorType [2, - 1] F32Type) 2" "RankedTensorType [3, 3] F32Type"
          "\<lparr>resultType = SeqType (UnrankedTensorType F32Type) (- 1), diagnostics = []\<rparr>"]
    by (auto simp: lengthOf_def descriptorOf_inj)
qed

text \<open>
  Claim C4 (Erase, failure). The hook fails exactly when the length of the input sequence
  is \<open>Known 0\<close>; it then emits the diagnostic \<^verbatim>\<open>SequenceErase from an empty seq\<close> and
  changes nothing else: the declared result type stays as it was.
\<close>

theorem SequenceErase_fails_iff_known_empty:
  "(fst (ONNXSequenceEraseOp_inferShapes s op) = failure \<longleftrightarrow> lengthOf (getLength s) = Known 0)
   \<and> (lengthOf (getLength s) = Known 0 \<longrightarrow>
        snd (ONNXSequenceEraseOp_inferShapes s op)
          = op\<lparr>diagnostics := diagnostics op @ [''SequenceErase from an empty seq'']\<rparr>
        \<and> resultType (snd (ONNXSequenceEraseOp_inferShapes s op)) = resultType op)"
  by (simp add: ONNXSequenceEraseOp_inferShapes_def emitError_def setType_def lengthOf_Known_0
        Let_def)

text \<open>Scenario 5 of the specification, and a sequence of two elements, on which the hook
  does not fail.\<close>

theorem SequenceErase_fails_iff_known_empty_witness:
  "lengthOf 0 = Known 0
   \<and> ONNXSequenceEraseOp_inferShapes (SeqType (RankedTensorType [5] F32Type) 0)
        \<lparr>resultType = SeqType (UnrankedTensorType F32Type) (- 1), diagnostics = []\<rparr>
     = (failure,
        \<lparr>resultType = SeqType (UnrankedTensorType F32Type) (- 1),
         diagnostics = [''SequenceErase from an empty seq'']\<rparr>)
   \<and> fst (ONNXSequenceEraseOp_inferShapes (SeqType (RankedTensorType [5] F32Type) 2)
        \<lparr>resultType = SeqType (UnrankedTensorType F32Type) (- 1), diagnostics = []\<rparr>)
     \<noteq> failure"
proof -
  have z: "lengthOf 0 = Known 0" by (simp add: lengthOf_def)
  have two: "lengthOf 2 \<noteq> Known 0" by (simp add: lengthOf_def)
  show ?thesis
    using z two
      SequenceErase_fails_iff_known_empty
        [of "SeqType (RankedTensorType [5] F32Type) 0"
          "\<lparr>resultType = SeqType (UnrankedTensorType F32Type) (- 1), diagnostics = []\<rparr>"]
      SequenceErase_fails_iff_known_empty
        [of "SeqType (RankedTensorType [5] F32Type) 2"
          "\<lparr>resultType = SeqType (UnrankedTensorType F32Type) (- 1), diagnostics = []\<rparr>"]
    by (cases "ONNXSequenceEraseOp_inferShapes (SeqType (RankedTensorType [5] F32Type) 0)
        \<lparr>resultType = SeqType (UnrankedTensorType F32Type) (- 1), diagnostics = []\<rparr>")
       simp
qed

text \<open>
  Claim C5 (Erase, success). On every input sequence whose length is not \<open>Known 0\<close> the
  hook succeeds, emits nothing, and commits a sequence type with the input's element type
  unchanged; its length is unknown if the input's was, and \<open>Known (k - 1)\<close> if the input's
  was \<open>Known k\<close> (a length that an \<^verbatim>\<open>int64_t\<close> holds).
\<close>

theorem SequenceErase_keeps_element_type:
  assumes "lengthOf (getLength s) \<noteq> Known 0"
  shows "fst (ONNXSequenceEraseOp_inferShapes s op) = success
    \<and> diagnostics (snd (ONNXSequenceEraseOp_inferShapes s op)) = diagnostics op
    \<and> SeqType_getElementType (resultType (snd (ONNXSequenceEraseOp_inferShapes s op)))
        = SeqType_getElementType s
    \<and> (lengthOf (getLength s) = Unknown \<longrightarrow>
         lengthOf (getLength (resultType (snd (ONNXSequenceEraseOp_inferShapes s op)))) = Unknown)
    \<and> (\<forall>k. lengthOf (getLength s) = Known k \<and> k < 2 ^ 63 \<longrightarrow>
         lengthOf (getLength (resultType (snd (ONNXSequenceEraseOp_inferShapes s op))))
           = Known (k - 1))"
proof (cases "getLength s = - 1")
  case True
  then show ?thesis
    by (simp add: ONNXSequenceEraseOp_inferShapes_def setType_def lengthOf_def)
next
  case False
  from assms have n0: "getLength s \<noteq> 0" by (simp add: lengthOf_Known_0)
  have "lengthOf (getLength s - 1) = Known (k - 1)" if "lengthOf (getLength s) = Known k" for k
  proof -
    from that n0 have "0 < k" by (auto simp: lengthOf_Known unat_gt_0)
    with that show ?thesis by (simp add: lengthOf_pred)
  qed
  with n0 False show ?thesis
    by (simp add: ONNXSequenceEraseOp_inferShapes_def setType_def lengthOf_Unknown)
qed

text \<open>Erasing from a sequence of three tensors of shape \<open>2 x ?\<close>.\<close>

theorem SequenceErase_keeps_element_type_witness:
  "lengthOf 3 \<noteq> Known 0
   \<and> fst (ONNXSequenceEraseOp_inferShapes (SeqType (RankedTensorType [2, - 1] F32Type) 3)
        \<lparr>resultType = SeqType (UnrankedTensorType F32Type) (- 1), diagnostics = []\<rparr>) = success
   \<and> SeqType_getElementType (resultType (snd (ONNXSequenceEraseOp_inferShapes
        (SeqType (RankedTensorType [2, - 1] F32Type) 3)
        \<lparr>resultType = SeqType (UnrankedTensorType F32Type) (- 1), diagnostics = []\<rparr>)))
     = RankedTensorType [2, - 1] F32Type
   \<and> lengthOf (getLength (resultType (snd (ONNXSequenceEraseOp_inferShapes
        (SeqType (RankedTensorType [2, - 1] F32Type) 3)
        \<lparr>resultType = SeqType (UnrankedTensorType F32Type) (- 1), diagnostics = []\<rparr>))))
     = Known 2"
proof -
  have h: "lengthOf (getLength (SeqType (RankedTensorType [2, - 1] F32Type) 3)) \<noteq> Known 0"
    by (simp add: lengthOf_def)
  have k: "lengthOf (getLength (SeqType (RankedTensorType [2, - 1] F32Type) 3)) = Known 3"
    by (simp add: lengthOf_def)
  show ?thesis
    using h k SequenceErase_keeps_element_type [OF h,
        of "\<lparr>resultType = SeqType (UnrankedTensorType F32Type) (- 1), diagnostics = []\<rparr>"]
    by simp
qed

text \<open>
  Claim C6 (the helper refines the reference merge). For every two tensor types of equal
  scalar type the helper returns a tensor type (its assertion holds), and the descriptor of
  that type is the reference \<open>merge\<close> of the two descriptors: unranked if either input is
  unranked or the ranks differ, and otherwise ranked of the same rank with \<open>Static v\<close> where
  both inputs have \<open>Static v\<close> and \<open>Dynamic\<close> elsewhere; the scalar type is kept. Reading a
  type as its descriptor is one-to-one (\<open>descriptorOf_inj\<close>), so this fixes the returned type.
  The helper takes and returns tensor types only: a sequence length is no part of its
  arguments or of its result.
\<close>

theorem sequenceAddType_is_merge:
  assumes "getElementType a = getElementType b"
  shows "\<exists>t. sequenceAddType a b = Inr t
           \<and> descriptorOf t = merge (descriptorOf a) (descriptorOf b)
           \<and> getElementType t = getElementType a"
proof -
  from assms obtain t where t: "sequenceAddType a b = Inr t"
      "descriptorOf t = merge (descriptorOf a) (descriptorOf b)"
    using sequenceAddType_refines by blast
  then have "getElementType t = getElementType a"
    by (simp add: sequenceAddType_elementType)
  with t show ?thesis by blast
qed

text \<open>Shapes \<open>2 x 3\<close> and \<open>2 x 4\<close> merge to \<open>2 x ?\<close>.\<close>

theorem sequenceAddType_is_merge_witness:
  "getElementType (RankedTensorType [2, 3] F32Type) = getElementType (RankedTensorType [2, 4] F32Type)
   \<and> sequenceAddType (RankedTensorType [2, 3] F32Type) (RankedTensorType [2, 4] F32Type)
       = Inr (RankedTensorType [2, - 1] F32Type)
   \<and> merge (descriptorOf (RankedTensorType [2, 3] F32Type))
           (descriptorOf (RankedTensorType [2, 4] F32Type))
       = \<lparr>elementDataType = F32Type, shape = Ranked [Static 2, Dynamic]\<rparr>"
  using sequenceAddType_is_merge
    [of "RankedTensorType [2, 3] F32Type" "RankedTensorType [2, 4] F32Type"]
  by (simp add: sequenceAddType_def getRank_def descriptorOf_def merge_def dimOf_def
      upt_conv_Cons)

text \<open>
  Claim C7 (the helper is commutative and idempotent). For two tensor types of equal scalar
  type the helper returns the same tensor type in both argument orders, and merging a type
  with itself returns that type.
\<close>

theorem sequenceAddType_commutative_idempotent:
  "(getElementType a = getElementType b \<longrightarrow>
      sequenceAddType a b = sequenceAddType b a \<and> (\<exists>t. sequenceAddType a b = Inr t))
   \<and> sequenceAddType x x = Inr x"
  using sequenceAddType_comm [of a b] sequenceAddType_refines [of a b] sequenceAddType_idem [of x]
  by blast

text \<open>Shapes \<open>2 x ?\<close> and \<open>3 x 3\<close> merge to \<open>? x ?\<close> in both orders; shape \<open>5\<close> merged
  with itself is shape \<open>5\<close>.\<close>

theorem sequenceAddType_commutative_idempotent_witness:
  "sequenceAddType (RankedTensorType [2, - 1] F32Type) (RankedTensorType [3, 3] F32Type)
     = Inr (RankedTensorType [- 1, - 1] F32Type)
   \<and> sequenceAddType (RankedTensorType [3, 3] F32Type) (RankedTensorType [2, - 1] F32Type)
     = Inr (RankedTensorType [- 1, - 1] F32Type)
   \<and> sequenceAddType (RankedTensorType [5] F32Type) (RankedTensorType [5] F32Type)
     = Inr (RankedTensorType [5] F32Type)"
  using sequenceAddType_commutative_idempotent
    [of "RankedTensorType [2, - 1] F32Type" "RankedTensorType [3, 3] F32Type"
        "RankedTensorType [5] F32Type"]
  by (simp add: sequenceAddType_def getRank_def upt_conv_Cons)

text \<open>
  Claim C8 (Construct-From-List). For every non-empty list of \<open>n\<close> tensor types that share
  one scalar type (with \<open>n\<close> a length that an \<^verbatim>\<open>int64_t\<close> holds) the hook succeeds and
  commits a sequence type of length \<open>Known n\<close>, whose element descriptor is the left fold of
  the reference merge over the descriptors of the list, started at the first one; for a
  single tensor it is that tensor's type.
\<close>

theorem SequenceConstruct_length_and_fold:
  assumes "types \<noteq> []"
    and "\<forall>t\<in>set types. getElementType t = e"
    and "length types < 2 ^ 63"
  shows "\<exists>t. ONNXSequenceConstructOp_inferShapes types op
              = Inr (success, op\<lparr>resultType := SeqType t (of_nat (length types))\<rparr>)
           \<and> lengthOf (of_nat (length types)) = Known (length types)
           \<and> descriptorOf t
               = foldl merge (descriptorOf (hd types)) (map descriptorOf (tl types))
           \<and> (length types = 1 \<longrightarrow> t = hd types)"
proof -
  from assms(1) obtain t0 rest where ty: "types = t0 # rest" by (cases types) auto
  with assms(2) have "\<forall>t\<in>set rest. getElementType t = getElementType t0" by simp
  then obtain t where t: "sequenceAddTypes t0 rest = Inr t"
      "descriptorOf t = foldl merge (descriptorOf t0) (map descriptorOf rest)"
    using sequenceAddTypes_refines by blast
  have "length types = 1 \<longrightarrow> t = hd types"
    using t ty by auto
  moreover have "lengthOf (of_nat (length types)) = Known (length types)"
    using assms(3) by (rule lengthOf_of_nat)
  moreover have "ONNXSequenceConstructOp_inferShapes types op
      = Inr (success, op\<lparr>resultType := SeqType t (of_nat (length types))\<rparr>)"
    using t(1) ty by (simp add: ONNXSequenceConstructOp_inferShapes_def setType_def)
  ultimately show ?thesis using t(2) ty by auto
qed

text \<open>Scenario 2 of the specification.\<close>

theorem SequenceConstruct_length_and_fold_witness:
  "ONNXSequenceConstructOp_inferShapes
      [RankedTensorType [2, 3] F32Type, RankedTensorType [2, 4] F32Type]
      \<lparr>resultType = SeqType (UnrankedTensorType F32Type) (- 1), diagnostics = []\<rparr>
     = Inr (success,
            \<lparr>resultType = SeqType (RankedTensorType [2, - 1] F32Type) 2, diagnostics = []\<rparr>)
   \<and> lengthOf 2 = Known 2
   \<and> descriptorOf (RankedTensorType [2, - 1] F32Type)
       = \<lparr>elementDataType = F32Type, shape = Ranked [Static 2, Dynamic]\<rparr>"
proof -
  have h1: "[RankedTensorType [2, 3] F32Type, RankedTensorType [2, 4] F32Type] \<noteq> []" by simp
  have h2: "\<forall>t\<in>set [RankedTensorType [2, 3] F32Type, RankedTensorType [2, 4] F32Type].
              getElementType t = F32Type" by simp
  have h3: "length [RankedTensorType [2, 3] F32Type, RankedTensorType [2, 4] F32Type]
              < 2 ^ 63" by simp
  show ?thesis
    using SequenceConstruct_length_and_fold [OF h1 h2 h3,
        of "\<lparr>resultType = SeqType (UnrankedTensorType F32Type) (- 1), diagnostics = []\<rparr>"]
    by (auto simp: descriptorOf_def merge_def dimOf_def descriptorOf_inj [symmetric])
qed

text \<open>
  Claim C9 (Index-Access, the tightening). The hook replaces the declared result type by
  the sequence's element type exactly when that element type is not unranked and the
  declared result type is unranked; in every other case the operation is returned as it
  was. In particular a declared result type that is ranked is never overwritten.
\<close>

theorem SequenceAt_tightens_only_unranked_result:
  "ONNXSequenceAtOp_inferShapes s op =
     (success,
      if shapeOf (SeqType_getElementType s) \<noteq> Unranked \<and> shapeOf (resultType op) = Unranked
      then op\<lparr>resultType := SeqType_getElementType s\<rparr> else op)
   \<and> (shapeOf (resultType op) \<noteq> Unranked \<longrightarrow>
        resultType (snd (ONNXSequenceAtOp_inferShapes s op)) = resultType op)"
  by (cases "SeqType_getElementType s"; cases "resultType op")
     (simp_all add: ONNXSequenceAtOp_inferShapes_def isa_UnrankedTensorType_def setType_def)

text \<open>An unranked declared result is tightened to the element type \<open>2 x ?\<close>; a declared
  result of shape \<open>7\<close> is kept.\<close>

theorem SequenceAt_tightens_only_unranked_result_witness:
  "ONNXSequenceAtOp_inferShapes (SeqType (RankedTensorType [2, - 1] F32Type) 3)
      \<lparr>resultType = UnrankedTensorType F32Type, diagnostics = []\<rparr>
     = (success, \<lparr>resultType = RankedTensorType [2, - 1] F32Type, diagnostics = []\<rparr>)
   \<and> resultType (snd (ONNXSequenceAtOp_inferShapes (SeqType (RankedTensorType [2, - 1] F32Type) 3)
        \<lparr>resultType = RankedTensorType [7] F32Type, diagnostics = []\<rparr>))
     = RankedTensorType [7] F32Type"
  using SequenceAt_tightens_only_unranked_result
      [of "SeqType (RankedTensorType [2, - 1] F32Type) 3"
          "\<lparr>resultType = UnrankedTensorType F32Type, diagnostics = []\<rparr>"]
    SequenceAt_tightens_only_unranked_result
      [of "SeqType (RankedTensorType [2, - 1] F32Type) 3"
          "\<lparr>resultType = RankedTensorType [7] F32Type, diagnostics = []\<rparr>"]
  by simp

text \<open>
  Claim C10 (Index-Access never fails). For every input sequence type and every declared
  result type the hook returns success and emits no diagnostic; nothing is checked about
  the length or the scalar types. When the tightening condition does not hold the
  operation is returned unchanged.
\<close>

theorem SequenceAt_never_fails:
  "fst (ONNXSequenceAtOp_inferShapes s op) = success
   \<and> diagnostics (snd (ONNXSequenceAtOp_inferShapes s op)) = diagnostics op
   \<and> (\<not> (shapeOf (SeqType_getElementType s) \<noteq> Unranked \<and> shapeOf (resultType op) = Unranked)
        \<longrightarrow> snd (ONNXSequenceAtOp_inferShapes s op) = op)"
  by (cases "SeqType_getElementType s"; cases "resultType op")
     (simp_all add: ONNXSequenceAtOp_inferShapes_def isa_UnrankedTensorType_def setType_def)

text \<open>A sequence known to be empty, of floats, read into a declared result of 64-bit
  integers: success, and nothing changes.\<close>

theorem SequenceAt_never_fails_witness:
  "fst (ONNXSequenceAtOp_inferShapes (SeqType (UnrankedTensorType F32Type) 0)
      \<lparr>resultType = RankedTensorType [2] (IntegerType 64), diagnostics = []\<rparr>) = success
   \<and> snd (ONNXSequenceAtOp_inferShapes (SeqType (UnrankedTensorType F32Type) 0)
      \<lparr>resultType = RankedTensorType [2] (IntegerType 64), diagnostics = []\<rparr>)
     = \<lparr>resultType = RankedTensorType [2] (IntegerType 64), diagnostics = []\<rparr>"
  using SequenceAt_never_fails
      [of "SeqType (UnrankedTensorType F32Type) 0"
          "\<lparr>resultType = RankedTensorType [2] (IntegerType 64), diagnostics = []\<rparr>"]
  by simp

end
